theory Spec2Isabelle
  imports Complex_Main "HOL-Library.Multiset"
begin

section \<open>Data model (models.py)\<close>

text \<open>
  The three tables of \<^verbatim>\<open>models.py\<close>. A nullable column is an \<open>option\<close>. Integer
  columns are read as \<open>int\<close>: no operation of \<^verbatim>\<open>crud.py\<close> does arithmetic on a
  stored integer other than the aggregates of the store. The fields \<open>id\<close> of the two
  classes are named \<open>movie_id\<close> and \<open>star_id\<close>.
\<close>

type_synonym date = "int \<times> nat \<times> nat"

record star =
  star_id :: int
  name :: string
  birthdate :: "date option"

record movie =
  movie_id :: int
  title :: string
  year :: int
  duration :: "int option"
  id_director :: "int option"

record play_row =
  id_movie :: int
  id_actor :: int
  role :: "string option"

text \<open>
  The state a session reads and commits to: the rows of each table, in the store's
  natural order.
\<close>

record db =
  movies :: "movie list"
  stars :: "star list"
  play :: "play_row list"

section \<open>Queries of crud.py\<close>

text \<open>
  \<^verbatim>\<open>query.filter(Movie.id == movie_id).first()\<close> is the first row with that id, or
  \<^verbatim>\<open>None\<close>. The log line of \<^verbatim>\<open>get_movie\<close> only reads.
\<close>

definition get_movie :: "db \<Rightarrow> int \<Rightarrow> movie option" where
  "get_movie d mid = find (\<lambda>m. movie_id m = mid) (movies d)"

definition get_star :: "db \<Rightarrow> int \<Rightarrow> star option" where
  "get_star d sid = find (\<lambda>s. star_id s = sid) (stars d)"

text \<open>
  \<^verbatim>\<open>order_by(Movie.year)\<close> sorts ascending and \<^verbatim>\<open>order_by(Movie.year.desc())\<close>
  descending. The store leaves the order of rows of equal year open; the model keeps
  them in table order.
\<close>

definition order_by_year :: "movie list \<Rightarrow> movie list" where
  "order_by_year ms = sort_key year ms"

definition order_by_year_desc :: "movie list \<Rightarrow> movie list" where
  "order_by_year_desc ms = sort_key (\<lambda>m. - year m) ms"

text \<open>
  \<^verbatim>\<open>get_movies_by_range_year\<close>: the result is \<^verbatim>\<open>None\<close> or a list.
\<close>

definition get_movies_by_range_year :: "db \<Rightarrow> int option \<Rightarrow> int option \<Rightarrow> movie list option" where
  "get_movies_by_range_year d year_min year_max =
     (case (year_min, year_max) of
        (None, None) \<Rightarrow> None
      | (None, Some hi) \<Rightarrow> Some (order_by_year_desc (filter (\<lambda>m. year m \<le> hi) (movies d)))
      | (Some lo, None) \<Rightarrow> Some (order_by_year (filter (\<lambda>m. year m \<ge> lo) (movies d)))
      | (Some lo, Some hi) \<Rightarrow>
          Some (order_by_year (filter (\<lambda>m. year m \<ge> lo \<and> year m \<le> hi) (movies d))))"

text \<open>
  The two relationships of \<^verbatim>\<open>Movie\<close>. \<^verbatim>\<open>movie.director\<close> loads the star whose id is
  \<^verbatim>\<open>id_director\<close>, or \<^verbatim>\<open>None\<close>; \<^verbatim>\<open>movie.actors\<close> loads the stars joined to the
  movie through \<^verbatim>\<open>play\<close>.
\<close>

definition director_of :: "db \<Rightarrow> movie \<Rightarrow> star option" where
  "director_of d m = (case id_director m of None \<Rightarrow> None | Some i \<Rightarrow> get_star d i)"

definition actors_of :: "db \<Rightarrow> movie \<Rightarrow> star list" where
  "actors_of d m =
     concat (map (\<lambda>r. filter (\<lambda>s. star_id s = id_actor r) (stars d))
                 (filter (\<lambda>r. id_movie r = movie_id m) (play d)))"

text \<open>
  \<^verbatim>\<open>column.like(pattern)\<close> is the store's \<^verbatim>\<open>LIKE\<close>: in the pattern \<^verbatim>\<open>%\<close> stands
  for any run of characters, \<^verbatim>\<open>_\<close> for any one character, and a backslash makes the
  character after it literal (a backslash that ends the pattern is itself literal). Whether
  two characters compare equal is the store's collation, which no source file fixes: it
  is the parameter \<open>eq\<close>, pattern character first.
\<close>

type_synonym collation = "char \<Rightarrow> char \<Rightarrow> bool"

fun sql_like :: "collation \<Rightarrow> string \<Rightarrow> string \<Rightarrow> bool" where
  "sql_like eq [] [] = True"
| "sql_like eq [] (c # cs) = False"
| "sql_like eq (p # ps) [] = (if p = CHR ''%'' then sql_like eq ps [] else False)"
| "sql_like eq (p # ps) (c # cs) =
     (if p = CHR ''%'' then sql_like eq ps (c # cs) \<or> sql_like eq (p # ps) cs
      else if p = CHR ''_'' then sql_like eq ps cs
      else if p = CHR 0x5C then
        (case ps of [] \<Rightarrow> eq p c \<and> sql_like eq [] cs
                  | q # qs \<Rightarrow> eq q c \<and> sql_like eq qs cs)
      else eq p c \<and> sql_like eq ps cs)"

text \<open>
  A query for one mapped class returns each object once: the rows are made unique by
  object identity, which is the primary key, the first occurrence kept. The rows of one
  table have distinct primary keys already, so only the queries that join go through it.
\<close>

fun unique_list :: "('a \<Rightarrow> int) \<Rightarrow> int list \<Rightarrow> 'a list \<Rightarrow> 'a list" where
  "unique_list idfun seen [] = []"
| "unique_list idfun seen (x # xs) =
     (if idfun x \<in> set seen then unique_list idfun seen xs
      else x # unique_list idfun (idfun x # seen) xs)"

definition get_movies_by_title :: "collation \<Rightarrow> db \<Rightarrow> string \<Rightarrow> movie list" where
  "get_movies_by_title eq d movie_title =
     order_by_year_desc
       (filter (\<lambda>m. sql_like eq (''%'' @ movie_title @ ''%'') (title m)) (movies d))"

text \<open>
  \<^verbatim>\<open>query(Movie).join(Movie.actors)\<close> has one row for each pair of a movie and one of
  its actors.
\<close>

definition get_movies_by_actor_endname :: "collation \<Rightarrow> db \<Rightarrow> string \<Rightarrow> movie list" where
  "get_movies_by_actor_endname eq d endname =
     unique_list movie_id []
       (order_by_year_desc
          (concat (map (\<lambda>m. map (\<lambda>s. m)
                               (filter (\<lambda>s. sql_like eq (''%'' @ endname) (name s)) (actors_of d m)))
                       (movies d))))"

text \<open>
  \<^verbatim>\<open>get_director_by_id_movie\<close>: the inner join to the director keeps a movie only if
  a star has the id in \<^verbatim>\<open>id_director\<close>. \<^verbatim>\<open>first()\<close> of no row is \<^verbatim>\<open>None\<close>, and
  reading \<^verbatim>\<open>.director\<close> of \<^verbatim>\<open>None\<close> raises \<^verbatim>\<open>AttributeError\<close>.
\<close>

text \<open>
  The exceptions that leave a function of \<^verbatim>\<open>crud.py\<close>: \<^verbatim>\<open>AttributeError\<close> of
  Python and \<^verbatim>\<open>StaleDataError\<close> of the object-relational mapper.
\<close>

datatype error = AttributeError | StaleDataError

definition get_director_by_id_movie :: "db \<Rightarrow> int \<Rightarrow> error + star option" where
  "get_director_by_id_movie d mid =
     (case concat (map (\<lambda>m. map (\<lambda>s. m)
                              (case id_director m of
                                 None \<Rightarrow> []
                               | Some i \<Rightarrow> filter (\<lambda>s. star_id s = i) (stars d)))
                       (filter (\<lambda>m. movie_id m = mid) (movies d))) of
        [] \<Rightarrow> Inl AttributeError
      | movie_director # _ \<Rightarrow> Inr (director_of d movie_director))"

text \<open>
  The aggregates of the store: \<^verbatim>\<open>count(*)\<close> counts rows; \<^verbatim>\<open>min\<close>, \<^verbatim>\<open>max\<close> and
  \<^verbatim>\<open>avg\<close> skip the rows whose value is null and are null when no value is left.
\<close>

fun sql_min :: "int option list \<Rightarrow> int option" where
  "sql_min [] = None"
| "sql_min (None # xs) = sql_min xs"
| "sql_min (Some v # xs) = (case sql_min xs of None \<Rightarrow> Some v | Some w \<Rightarrow> Some (min v w))"

fun sql_max :: "int option list \<Rightarrow> int option" where
  "sql_max [] = None"
| "sql_max (None # xs) = sql_max xs"
| "sql_max (Some v # xs) = (case sql_max xs of None \<Rightarrow> Some v | Some w \<Rightarrow> Some (max v w))"

fun non_null :: "int option list \<Rightarrow> int list" where
  "non_null [] = []"
| "non_null (None # xs) = non_null xs"
| "non_null (Some v # xs) = v # non_null xs"

text \<open>
  The store returns an average in its numeric type, the quotient of the sum by the count
  rounded to that type. Which type that is depends on the store; it is the parameter
  \<open>quantize\<close>, the rounding of a rational number to the type. The store that
  \<^verbatim>\<open>database.py\<close> names, MySQL, returns the average of integers as a decimal number
  with four places after the point, rounded half away from zero: \<open>decimal4\<close>.
\<close>

definition sql_avg :: "(rat \<Rightarrow> rat) \<Rightarrow> int option list \<Rightarrow> rat option" where
  "sql_avg quantize xs =
     (case non_null xs of
        [] \<Rightarrow> None
      | v # vs \<Rightarrow>
          Some (quantize (of_int (sum_list (v # vs)) / of_int (int (length (v # vs))))))"

definition decimal4 :: "rat \<Rightarrow> rat" where
  "decimal4 q =
     (if 0 \<le> q then of_int \<lfloor>q * 10000 + 1 / 2\<rfloor> / 10000
      else - (of_int \<lfloor>- q * 10000 + 1 / 2\<rfloor> / 10000))"

text \<open>
  The dictionaries that \<^verbatim>\<open>get_count_movies_by_year\<close> returns; the key \<^verbatim>\<open>"year"\<close> is
  the field \<open>stat_year\<close>.
\<close>

record movie_stat =
  stat_year :: int
  movie_count :: int
  min_duration :: "int option"
  max_duration :: "int option"
  avg_duration :: "rat option"

definition get_count_movies_by_year :: "(rat \<Rightarrow> rat) \<Rightarrow> db \<Rightarrow> movie_stat list" where
  "get_count_movies_by_year quantize d =
     map (\<lambda>y. let durations = map duration (filter (\<lambda>m. year m = y) (movies d)) in
               \<lparr>stat_year = y,
                movie_count = int (length durations),
                min_duration = sql_min durations,
                max_duration = sql_max durations,
                avg_duration = sql_avg quantize durations\<rparr>)
         (sort (remdups (map year (movies d))))"

section \<open>Mutations of crud.py\<close>

text \<open>
  Every mutating function takes the state and returns its result with the state after
  \<^verbatim>\<open>db.commit()\<close>; a path that returns before the commit returns the state it was given.
  A changed attribute of a loaded object is written by an \<^verbatim>\<open>UPDATE\<close> of the rows
  with the object's primary key.
\<close>

text \<open>
  Modelled from the spec: the class \<^verbatim>\<open>schemas.Movie\<close> is not among the sources.
  \<^verbatim>\<open>update_movie\<close> reads its \<^verbatim>\<open>id\<close>, \<^verbatim>\<open>title\<close>, \<^verbatim>\<open>year\<close> and \<^verbatim>\<open>duration\<close>,
  the arguments of the spec's \<^verbatim>\<open>update(id, title, year, duration)\<close>.
\<close>

record movie_schema =
  schema_id :: int
  schema_title :: string
  schema_year :: int
  schema_duration :: "int option"

definition set_scalars :: "movie_schema \<Rightarrow> movie \<Rightarrow> movie" where
  "set_scalars mv m =
     m\<lparr>title := schema_title mv, year := schema_year mv, duration := schema_duration mv\<rparr>"

definition update_movie :: "db \<Rightarrow> movie_schema \<Rightarrow> movie option \<times> db" where
  "update_movie d mv =
     (case find (\<lambda>m. movie_id m = schema_id mv) (movies d) of
        None \<Rightarrow> (None, d)
      | Some db_movie \<Rightarrow>
          (Some (set_scalars mv db_movie),
           d\<lparr>movies := map (\<lambda>r. if movie_id r = movie_id db_movie then set_scalars mv r else r)
                            (movies d)\<rparr>))"

text \<open>
  \<^verbatim>\<open>update_movie_director\<close> and \<^verbatim>\<open>add_movie_actor\<close> return the string
  \<^verbatim>\<open>"error_m"\<close>, the string \<^verbatim>\<open>"error_s"\<close> or the movie.
\<close>

datatype movie_result = error_m | error_s | Movie movie

definition update_movie_director :: "db \<Rightarrow> int \<Rightarrow> int \<Rightarrow> movie_result \<times> db" where
  "update_movie_director d mid director_id =
     (let db_movie = get_movie d mid; db_star = get_star d director_id in
      case db_movie of
        None \<Rightarrow> (error_m, d)
      | Some m \<Rightarrow>
          (case db_star of
             None \<Rightarrow> (error_s, d)
           | Some s \<Rightarrow>
               (Movie (m\<lparr>id_director := Some (star_id s)\<rparr>),
                d\<lparr>movies := map (\<lambda>r. if movie_id r = movie_id m
                                        then r\<lparr>id_director := Some (star_id s)\<rparr> else r)
                                 (movies d)\<rparr>)))"

text \<open>
  \<^verbatim>\<open>movie.actors\<close> as a session loads it: the stars joined to the movie, each object
  once.
\<close>

definition loaded_actors :: "db \<Rightarrow> movie \<Rightarrow> star list" where
  "loaded_actors d m = unique_list star_id [] (actors_of d m)"

text \<open>
  The rows that the commit inserts into \<^verbatim>\<open>play\<close>: one for each star of the collection
  that was not in it when it was loaded, stars compared by identity (their primary key).
\<close>

definition added_rows :: "db \<Rightarrow> movie \<Rightarrow> star list \<Rightarrow> play_row list" where
  "added_rows d m current =
     map (\<lambda>s. \<lparr>id_movie = movie_id m, id_actor = star_id s, role = None\<rparr>)
         (filter (\<lambda>s. star_id s \<notin> star_id ` set (loaded_actors d m)) current)"

text \<open>
  A change of the collection \<^verbatim>\<open>movie.actors\<close> is flushed at the commit as the
  difference between the collection as it was loaded and as it is now: first one
  \<^verbatim>\<open>DELETE FROM play WHERE id_movie = ? AND id_actor = ?\<close> for each star that left,
  then the inserts, the rows of the stars that stayed untouched. The mapper compares the
  number of rows that the deletes matched with the number of stars that left and raises
  \<^verbatim>\<open>StaleDataError\<close> when they differ; the table \<^verbatim>\<open>play\<close> has no key, so a pair
  can be stored more than once. After the exception nothing is committed.
\<close>

definition flush_actors :: "db \<Rightarrow> movie \<Rightarrow> star list \<Rightarrow> error + db" where
  "flush_actors d m current =
     (let original = loaded_actors d m;
          deleted = filter (\<lambda>i. i \<notin> star_id ` set current) (map star_id original);
          matched = filter (\<lambda>r. id_movie r = movie_id m \<and> id_actor r \<in> set deleted) (play d)
      in if length matched \<noteq> length deleted then Inl StaleDataError
         else Inr (d\<lparr>play :=
                       filter (\<lambda>r. \<not> (id_movie r = movie_id m \<and> id_actor r \<in> set deleted))
                              (play d)
                       @ added_rows d m current\<rparr>))"

text \<open>
  \<^verbatim>\<open>add_movie_actor\<close> appends to the loaded collection: no star leaves it, so the
  commit runs the inserts only.
\<close>

definition add_movie_actor :: "db \<Rightarrow> int \<Rightarrow> int \<Rightarrow> movie_result \<times> db" where
  "add_movie_actor d mid sid =
     (let db_movie = get_movie d mid; db_star = get_star d sid in
      case db_movie of
        None \<Rightarrow> (error_m, d)
      | Some m \<Rightarrow>
          (case db_star of
             None \<Rightarrow> (error_s, d)
           | Some s \<Rightarrow>
               (Movie m, d\<lparr>play := play d @ added_rows d m (loaded_actors d m @ [s])\<rparr>)))"


section \<open>Notions of the specification\<close>

text \<open>
  A text ends with another when its last characters are, one by one, the characters of
  the other under the collation.
\<close>

definition ends_with :: "collation \<Rightarrow> string \<Rightarrow> string \<Rightarrow> bool" where
  "ends_with eq t s =
     (length t \<le> length s \<and> list_all2 eq t (drop (length s - length t) s))"

text \<open>A text without any character that \<^verbatim>\<open>LIKE\<close> reads specially.\<close>

definition wildcard_free :: "string \<Rightarrow> bool" where
  "wildcard_free t = list_all (\<lambda>c. c \<noteq> CHR ''%'' \<and> c \<noteq> CHR ''_'' \<and> c \<noteq> CHR 0x5C) t"

section \<open>A sample state\<close>

definition star1 :: star where
  "star1 = \<lparr>star_id = 1, name = ''John Smith'', birthdate = None\<rparr>"

definition star2 :: star where
  "star2 = \<lparr>star_id = 2, name = ''Ann Smithson'', birthdate = Some (1970, 1, 2)\<rparr>"

definition star3 :: star where
  "star3 = \<lparr>star_id = 3, name = ''Lee Wong'', birthdate = None\<rparr>"

definition movie1 :: movie where
  "movie1 = \<lparr>movie_id = 1, title = ''Alpha'', year = 1999, duration = Some 90,
             id_director = None\<rparr>"

definition movie2 :: movie where
  "movie2 = \<lparr>movie_id = 2, title = ''Beta'', year = 1999, duration = Some 110,
             id_director = Some 3\<rparr>"

definition movie3 :: movie where
  "movie3 = \<lparr>movie_id = 3, title = ''Gamma'', year = 2001, duration = Some 120,
             id_director = None\<rparr>"

definition sample_db :: db where
  "sample_db =
     \<lparr>movies = [movie1, movie2, movie3],
      stars = [star1, star2, star3],
      play = [\<lparr>id_movie = 1, id_actor = 1, role = None\<rparr>,
              \<lparr>id_movie = 2, id_actor = 2, role = Some ''lead''\<rparr>,
              \<lparr>id_movie = 3, id_actor = 3, role = None\<rparr>,
              \<lparr>id_movie = 3, id_actor = 1, role = None\<rparr>]\<rparr>"

definition sample_schema :: movie_schema where
  "sample_schema = \<lparr>schema_id = 2, schema_title = ''Beta II'', schema_year = 2003,
                    schema_duration = None\<rparr>"

definition stat1999 :: movie_stat where
  "stat1999 = \<lparr>stat_year = 1999, movie_count = 2, min_duration = Some 90,
               max_duration = Some 110, avg_duration = Some 100\<rparr>"

definition stat2001 :: movie_stat where
  "stat2001 = \<lparr>stat_year = 2001, movie_count = 1, min_duration = Some 120,
               max_duration = Some 120, avg_duration = Some 120\<rparr>"


text \<open>Three movies of one year with durations 90, 110 and 101.\<close>

definition thirds_db :: db where
  "thirds_db =
     \<lparr>movies = [\<lparr>movie_id = 1, title = ''A'', year = 2000, duration = Some 90,
                  id_director = None\<rparr>,
                \<lparr>movie_id = 2, title = ''B'', year = 2000, duration = Some 110,
                  id_director = None\<rparr>,
                \<lparr>movie_id = 3, title = ''C'', year = 2000, duration = Some 101,
                  id_director = None\<rparr>],
      stars = [], play = []\<rparr>"

lemmas sample_defs =
  sample_db_def movie1_def movie2_def movie3_def star1_def star2_def star3_def

section \<open>Sorting lemmas\<close>

lemma mset_order_by_year: "mset (order_by_year ms) = mset ms"
  by (simp add: order_by_year_def)

lemma sorted_order_by_year: "sorted (map year (order_by_year ms))"
  by (simp add: order_by_year_def)

lemma mset_order_by_year_desc: "mset (order_by_year_desc ms) = mset ms"
  by (simp add: order_by_year_desc_def)

lemma sorted_wrt_neg_key:
  "sorted (map (\<lambda>m. - f m) xs) \<Longrightarrow> sorted_wrt (\<lambda>a b. b \<le> a) (map (f :: 'a \<Rightarrow> int) xs)"
  by (induction xs) auto

lemma sorted_order_by_year_desc:
  "sorted_wrt (\<lambda>a b. b \<le> a) (map year (order_by_year_desc ms))"
  unfolding order_by_year_desc_def
  by (rule sorted_wrt_neg_key) (rule sorted_sort_key)

section \<open>Facts about the sample state\<close>

lemma sample_lookups:
  "get_movie sample_db 1 = Some movie1"
  "get_movie sample_db 2 = Some movie2"
  "get_movie sample_db 3 = Some movie3"
  "get_movie sample_db 9 = None"
  "get_star sample_db 3 = Some star3"
  "get_star sample_db 9 = None"
  by (simp_all add: get_movie_def get_star_def sample_defs)

lemma sample_relations:
  "director_of sample_db movie2 = Some star3"
  "actors_of sample_db movie2 = [star2]"
  by (simp_all add: director_of_def actors_of_def get_star_def sample_defs)

lemma sample_schema_fields:
  "schema_id sample_schema = 2" "schema_title sample_schema = ''Beta II''"
  "schema_year sample_schema = 2003" "schema_duration sample_schema = None"
  by (simp_all add: sample_schema_def)


lemma sample_actors:
  "actors_of sample_db movie1 = [star1]"
  "actors_of sample_db movie2 = [star2]"
  "actors_of sample_db movie3 = [star3, star1]"
  by (simp_all add: actors_of_def sample_defs)

lemma sample_names:
  "name star1 = ''John Smith''" "name star2 = ''Ann Smithson''" "name star3 = ''Lee Wong''"
  by (simp_all add: star1_def star2_def star3_def)

lemma sample_movie_fields:
  "movie_id movie1 = 1" "movie_id movie2 = 2" "movie_id movie3 = 3"
  "year movie1 = 1999" "year movie2 = 1999" "year movie3 = 2001"
  by (simp_all add: movie1_def movie2_def movie3_def)

lemma sample_movies: "movies sample_db = [movie1, movie2, movie3]"
  by (simp add: sample_db_def)

section \<open>Year range\<close>

text \<open>
  C1. For every state and bounds: with only a minimum, \<^verbatim>\<open>get_movies_by_range_year\<close>
  returns exactly the movies of year at least the minimum, ascending by year; with only
  a maximum, exactly the movies of year at most the maximum, descending by year; with
  both, exactly the movies with minimum \<open>\<le>\<close> year \<open>\<le>\<close> maximum, ascending by year.
\<close>

theorem get_movies_by_range_year_branches:
  "(\<exists>r. get_movies_by_range_year d (Some lo) None = Some r
        \<and> mset r = filter_mset (\<lambda>m. lo \<le> year m) (mset (movies d))
        \<and> sorted (map year r))
   \<and> (\<exists>r. get_movies_by_range_year d None (Some hi) = Some r
        \<and> mset r = filter_mset (\<lambda>m. year m \<le> hi) (mset (movies d))
        \<and> sorted_wrt (\<lambda>a b. b \<le> a) (map year r))
   \<and> (\<exists>r. get_movies_by_range_year d (Some lo) (Some hi) = Some r
        \<and> mset r = filter_mset (\<lambda>m. lo \<le> year m \<and> year m \<le> hi) (mset (movies d))
        \<and> sorted (map year r))"
  by (simp add: get_movies_by_range_year_def mset_order_by_year mset_order_by_year_desc
      sorted_order_by_year sorted_order_by_year_desc)

text \<open>
  C5. With both bounds absent \<^verbatim>\<open>get_movies_by_range_year\<close> returns \<^verbatim>\<open>None\<close>, which
  is not the empty list.
\<close>

theorem get_movies_by_range_year_no_bounds:
  "get_movies_by_range_year d None None = None
   \<and> get_movies_by_range_year d None None \<noteq> Some []"
  by (simp add: get_movies_by_range_year_def)

section \<open>Lookups after an update\<close>

lemma find_Some_key: "find P xs = Some x \<Longrightarrow> P x"
  by (induction xs) (auto split: if_splits)

lemma get_movie_id: "get_movie d mid = Some m \<Longrightarrow> movie_id m = mid"
  unfolding get_movie_def by (drule find_Some_key) simp

lemma get_star_id: "get_star d sid = Some s \<Longrightarrow> star_id s = sid"
  unfolding get_star_def by (drule find_Some_key) simp

lemma get_movie_map_update:
  "(\<And>r. movie_id (f r) = movie_id r) \<Longrightarrow>
   get_movie (d\<lparr>movies := map (\<lambda>r. if movie_id r = k then f r else r) (movies d)\<rparr>) j
     = (if j = k then map_option f (get_movie d j) else get_movie d j)"
proof -
  assume h: "\<And>r. movie_id (f r) = movie_id r"
  have "find (\<lambda>m. movie_id m = j) (map (\<lambda>r. if movie_id r = k then f r else r) xs)
        = (if j = k then map_option f (find (\<lambda>m. movie_id m = j) xs) else find (\<lambda>m. movie_id m = j) xs)" for xs
    by (induction xs) (auto simp: h)
  then show ?thesis by (simp add: get_movie_def)
qed

lemma actors_of_movies_update [simp]:
  "actors_of (d\<lparr>movies := ms\<rparr>) m = actors_of d m"
  by (simp add: actors_of_def)

lemma get_star_movies_update [simp]:
  "get_star (d\<lparr>movies := ms\<rparr>) i = get_star d i"
  by (simp add: get_star_def)

section \<open>Director and scalar updates\<close>

text \<open>
  C2. For every state, \<^verbatim>\<open>update_movie_director\<close> with the id of no movie returns the
  movie-not-found signal; with the id of a movie and the id of no star it returns the
  star-not-found signal, which is another value; when both exist it returns the movie
  with that star as director, and the committed state holds this movie under its id, its
  director being the star: in the table of movies every row with the id has the star as
  director and every other row is as before, and the other tables are as before.
\<close>

theorem update_movie_director_results:
  "(get_movie d mid = None \<longrightarrow> fst (update_movie_director d mid sid) = error_m)
   \<and> (get_movie d mid \<noteq> None \<and> get_star d sid = None
        \<longrightarrow> fst (update_movie_director d mid sid) = error_s)
   \<and> error_m \<noteq> error_s
   \<and> (\<forall>m s. get_movie d mid = Some m \<and> get_star d sid = Some s \<longrightarrow>
        (\<exists>d'. update_movie_director d mid sid = (Movie (m\<lparr>id_director := Some sid\<rparr>), d')
            \<and> get_movie d' mid = Some (m\<lparr>id_director := Some sid\<rparr>)
            \<and> director_of d' (m\<lparr>id_director := Some sid\<rparr>) = Some s
            \<and> movies d' = map (\<lambda>r. if movie_id r = mid then r\<lparr>id_director := Some sid\<rparr> else r)
                              (movies d)
            \<and> stars d' = stars d \<and> play d' = play d))"
proof (intro conjI allI impI)
  show "error_m \<noteq> error_s" by simp
next
  assume "get_movie d mid = None"
  then show "fst (update_movie_director d mid sid) = error_m"
    by (simp add: update_movie_director_def)
next
  assume "get_movie d mid \<noteq> None \<and> get_star d sid = None"
  then show "fst (update_movie_director d mid sid) = error_s"
    by (auto simp: update_movie_director_def)
next
  fix m s
  assume h: "get_movie d mid = Some m \<and> get_star d sid = Some s"
  then have ids: "movie_id m = mid" "star_id s = sid"
    by (auto dest: get_movie_id get_star_id)
  let ?m' = "m\<lparr>id_director := Some sid\<rparr>"
  let ?d' = "d\<lparr>movies := map (\<lambda>r. if movie_id r = mid then r\<lparr>id_director := Some sid\<rparr> else r) (movies d)\<rparr>"
  have 1: "update_movie_director d mid sid = (Movie ?m', ?d')"
    using h ids by (simp add: update_movie_director_def)
  have 2: "get_movie ?d' mid = Some ?m'"
    using h by (simp add: get_movie_map_update)
  have 3: "director_of ?d' ?m' = Some s"
    using h by (simp add: director_of_def)
  have 4: "movies ?d' = map (\<lambda>r. if movie_id r = mid then r\<lparr>id_director := Some sid\<rparr> else r)
                              (movies d)"
    "stars ?d' = stars d" "play ?d' = play d"
    by simp_all
  from 1 2 3 4 show "\<exists>d'. update_movie_director d mid sid = (Movie ?m', d')
            \<and> get_movie d' mid = Some ?m' \<and> director_of d' ?m' = Some s
            \<and> movies d' = map (\<lambda>r. if movie_id r = mid then r\<lparr>id_director := Some sid\<rparr> else r)
                              (movies d)
            \<and> stars d' = stars d \<and> play d' = play d"
    by (intro exI [of _ ?d'] conjI)
qed

theorem update_movie_director_results_witness:
  "get_movie sample_db 9 = None \<and> fst (update_movie_director sample_db 9 3) = error_m
   \<and> get_movie sample_db 1 \<noteq> None \<and> get_star sample_db 9 = None
   \<and> fst (update_movie_director sample_db 1 9) = error_s
   \<and> get_movie sample_db 1 = Some movie1 \<and> get_star sample_db 3 = Some star3
   \<and> (\<exists>d'. update_movie_director sample_db 1 3 = (Movie (movie1\<lparr>id_director := Some 3\<rparr>), d')
         \<and> get_movie d' 1 = Some (movie1\<lparr>id_director := Some 3\<rparr>)
         \<and> director_of d' (movie1\<lparr>id_director := Some 3\<rparr>) = Some star3
         \<and> movies d' = [movie1\<lparr>id_director := Some 3\<rparr>, movie2, movie3])"
proof -
  note l = sample_lookups
  have 1: "fst (update_movie_director sample_db 9 3) = error_m"
    using update_movie_director_results [of sample_db 9 3] l(4) by blast
  have 2: "fst (update_movie_director sample_db 1 9) = error_s"
    using update_movie_director_results [of sample_db 1 9] l(1,6) by simp
  note update_movie_director_results [of sample_db 1 3, THEN conjunct2, THEN conjunct2,
      THEN conjunct2, THEN spec, THEN spec, of movie1 star3, THEN mp, OF conjI [OF l(1) l(5)]]
  then obtain d' where d':
    "update_movie_director sample_db 1 3 = (Movie (movie1\<lparr>id_director := Some 3\<rparr>), d')"
    "get_movie d' 1 = Some (movie1\<lparr>id_director := Some 3\<rparr>)"
    "director_of d' (movie1\<lparr>id_director := Some 3\<rparr>) = Some star3"
    "movies d' = map (\<lambda>r. if movie_id r = 1 then r\<lparr>id_director := Some 3\<rparr> else r)
                     (movies sample_db)"
    by fast
  from d'(4) have "movies d' = [movie1\<lparr>id_director := Some 3\<rparr>, movie2, movie3]"
    by (simp add: sample_movies sample_movie_fields)
  with d'(1,2,3)
  have 3: "\<exists>d'. update_movie_director sample_db 1 3 = (Movie (movie1\<lparr>id_director := Some 3\<rparr>), d')
         \<and> get_movie d' 1 = Some (movie1\<lparr>id_director := Some 3\<rparr>)
         \<and> director_of d' (movie1\<lparr>id_director := Some 3\<rparr>) = Some star3
         \<and> movies d' = [movie1\<lparr>id_director := Some 3\<rparr>, movie2, movie3]"
    by (intro exI [of _ d'] conjI)
  from 1 2 3 l show ?thesis by simp
qed

text \<open>
  C7. For every state in which the id exists, \<^verbatim>\<open>update_movie\<close> replaces the title,
  year and duration of the movie with the given values and leaves its director reference,
  its director, its actors, the other movies and the other tables as they were: in the
  table of movies every row with the id has the three given values and its other fields
  as before, and every other row is as before. For an id that does not exist it returns
  \<^verbatim>\<open>None\<close> and the state it was given.
\<close>

theorem update_movie_frame:
  "(\<forall>m. get_movie d (schema_id mv) = Some m \<longrightarrow>
      (\<exists>d'. update_movie d mv = (Some (set_scalars mv m), d')
         \<and> get_movie d' (schema_id mv) = Some (set_scalars mv m)
         \<and> set_scalars mv m = m\<lparr>title := schema_title mv, year := schema_year mv, duration := schema_duration mv\<rparr>
         \<and> id_director (set_scalars mv m) = id_director m
         \<and> director_of d' (set_scalars mv m) = director_of d m
         \<and> actors_of d' (set_scalars mv m) = actors_of d m
         \<and> stars d' = stars d \<and> play d' = play d
         \<and> (\<forall>j. j \<noteq> schema_id mv \<longrightarrow> get_movie d' j = get_movie d j)
         \<and> movies d' = map (\<lambda>r. if movie_id r = schema_id mv
                                   then r\<lparr>title := schema_title mv, year := schema_year mv,
                                          duration := schema_duration mv\<rparr>
                                   else r) (movies d)))
   \<and> (get_movie d (schema_id mv) = None \<longrightarrow> update_movie d mv = (None, d))"
proof (intro conjI allI impI)
  assume "get_movie d (schema_id mv) = None"
  then show "update_movie d mv = (None, d)"
    by (simp add: update_movie_def get_movie_def)
next
  fix m
  assume h: "get_movie d (schema_id mv) = Some m"
  then have idm: "movie_id m = schema_id mv" by (rule get_movie_id)
  let ?d' = "d\<lparr>movies := map (\<lambda>r. if movie_id r = schema_id mv then set_scalars mv r else r) (movies d)\<rparr>"
  have 1: "update_movie d mv = (Some (set_scalars mv m), ?d')"
    using h idm by (simp add: update_movie_def get_movie_def)
  have key: "\<And>r. movie_id (set_scalars mv r) = movie_id r" by (simp add: set_scalars_def)
  have 2: "get_movie ?d' j = (if j = schema_id mv then map_option (set_scalars mv) (get_movie d j) else get_movie d j)" for j
    by (rule get_movie_map_update) (rule key)
  have 3: "director_of ?d' (set_scalars mv m) = director_of d m"
    by (simp add: director_of_def set_scalars_def split: option.splits)
  have 4: "actors_of ?d' (set_scalars mv m) = actors_of d m"
    by (simp add: actors_of_def set_scalars_def)
  show "\<exists>d'. update_movie d mv = (Some (set_scalars mv m), d')
         \<and> get_movie d' (schema_id mv) = Some (set_scalars mv m)
         \<and> set_scalars mv m = m\<lparr>title := schema_title mv, year := schema_year mv, duration := schema_duration mv\<rparr>
         \<and> id_director (set_scalars mv m) = id_director m
         \<and> director_of d' (set_scalars mv m) = director_of d m
         \<and> actors_of d' (set_scalars mv m) = actors_of d m
         \<and> stars d' = stars d \<and> play d' = play d
         \<and> (\<forall>j. j \<noteq> schema_id mv \<longrightarrow> get_movie d' j = get_movie d j)
         \<and> movies d' = map (\<lambda>r. if movie_id r = schema_id mv
                                   then r\<lparr>title := schema_title mv, year := schema_year mv,
                                          duration := schema_duration mv\<rparr>
                                   else r) (movies d)"
    apply (rule exI [of _ ?d'])
    using 1 2 3 4 h by (simp add: set_scalars_def)
qed

theorem update_movie_frame_witness:
  "get_movie sample_db (schema_id sample_schema) = Some movie2
   \<and> (\<exists>d'. update_movie sample_db sample_schema = (Some (set_scalars sample_schema movie2), d')
         \<and> get_movie d' 2 = Some (movie2\<lparr>title := ''Beta II'', year := 2003, duration := None\<rparr>)
         \<and> director_of d' (set_scalars sample_schema movie2) = Some star3
         \<and> actors_of d' (set_scalars sample_schema movie2) = [star2]
         \<and> get_movie d' 1 = Some movie1
         \<and> movies d' = [movie1, movie2\<lparr>title := ''Beta II'', year := 2003, duration := None\<rparr>,
                        movie3])
   \<and> get_movie sample_db (schema_id (sample_schema\<lparr>schema_id := 9\<rparr>)) = None
   \<and> update_movie sample_db (sample_schema\<lparr>schema_id := 9\<rparr>) = (None, sample_db)"
proof -
  note g = sample_schema_fields
  have a: "get_movie sample_db (schema_id sample_schema) = Some movie2"
    by (simp add: g sample_lookups)
  have b: "get_movie sample_db (schema_id (sample_schema\<lparr>schema_id := 9\<rparr>)) = None"
    by (simp add: sample_lookups)
  note update_movie_frame [of sample_db sample_schema, THEN conjunct1, THEN spec, of movie2,
      THEN mp, OF a]
  then obtain d' where d':
    "update_movie sample_db sample_schema = (Some (set_scalars sample_schema movie2), d')"
    "get_movie d' (schema_id sample_schema) = Some (set_scalars sample_schema movie2)"
    "set_scalars sample_schema movie2 = movie2\<lparr>title := schema_title sample_schema,
              year := schema_year sample_schema, duration := schema_duration sample_schema\<rparr>"
    "director_of d' (set_scalars sample_schema movie2) = director_of sample_db movie2"
    "actors_of d' (set_scalars sample_schema movie2) = actors_of sample_db movie2"
    "\<forall>j. j \<noteq> schema_id sample_schema \<longrightarrow> get_movie d' j = get_movie sample_db j"
    "movies d' = map (\<lambda>r. if movie_id r = schema_id sample_schema
                             then r\<lparr>title := schema_title sample_schema,
                                    year := schema_year sample_schema,
                                    duration := schema_duration sample_schema\<rparr>
                             else r) (movies sample_db)"
    by fast
  from d'(7) have t: "movies d' = [movie1, movie2\<lparr>title := ''Beta II'', year := 2003,
      duration := None\<rparr>, movie3]"
    by (simp add: g sample_movies sample_movie_fields)
  from d'(6) have "get_movie d' 1 = get_movie sample_db 1" by (simp add: g)
  then have h: "get_movie d' 1 = Some movie1" by (simp add: sample_lookups)
  from d'(2) have i: "get_movie d' 2 = Some (movie2\<lparr>title := ''Beta II'', year := 2003, duration := None\<rparr>)"
    unfolding d'(3) by (simp add: g)
  have j: "director_of d' (set_scalars sample_schema movie2) = Some star3"
    using d'(4) by (simp add: sample_relations)
  have k: "actors_of d' (set_scalars sample_schema movie2) = [star2]"
    using d'(5) by (simp add: sample_relations)
  from d'(1) h i j k t
  have 1: "\<exists>d'. update_movie sample_db sample_schema = (Some (set_scalars sample_schema movie2), d')
         \<and> get_movie d' 2 = Some (movie2\<lparr>title := ''Beta II'', year := 2003, duration := None\<rparr>)
         \<and> director_of d' (set_scalars sample_schema movie2) = Some star3
         \<and> actors_of d' (set_scalars sample_schema movie2) = [star2]
         \<and> get_movie d' 1 = Some movie1
         \<and> movies d' = [movie1, movie2\<lparr>title := ''Beta II'', year := 2003, duration := None\<rparr>,
                        movie3]"
    by (intro exI [of _ d'] conjI)
  have 2: "update_movie sample_db (sample_schema\<lparr>schema_id := 9\<rparr>) = (None, sample_db)"
    by (rule update_movie_frame [of sample_db "sample_schema\<lparr>schema_id := 9\<rparr>",
          THEN conjunct2, THEN mp, OF b])
  from a 1 b 2 show ?thesis by (intro conjI)
qed

text \<open>
  C9. For every state, when \<^verbatim>\<open>update_movie_director\<close> or \<^verbatim>\<open>add_movie_actor\<close>
  returns one of the two not-found signals, the state after the call is the state before
  it: no director is set, no row is added to \<^verbatim>\<open>play\<close>.
\<close>

theorem not_found_leaves_state:
  "(fst (update_movie_director d mid sid) = error_m \<or> fst (update_movie_director d mid sid) = error_s
      \<longrightarrow> snd (update_movie_director d mid sid) = d)
   \<and> (fst (add_movie_actor d mid sid) = error_m \<or> fst (add_movie_actor d mid sid) = error_s
      \<longrightarrow> snd (add_movie_actor d mid sid) = d)"
  by (auto simp: update_movie_director_def add_movie_actor_def Let_def split: option.splits)

theorem not_found_leaves_state_witness:
  "fst (update_movie_director sample_db 9 3) = error_m
   \<and> snd (update_movie_director sample_db 9 3) = sample_db
   \<and> fst (update_movie_director sample_db 1 9) = error_s
   \<and> snd (update_movie_director sample_db 1 9) = sample_db
   \<and> fst (add_movie_actor sample_db 9 3) = error_m
   \<and> snd (add_movie_actor sample_db 9 3) = sample_db
   \<and> fst (add_movie_actor sample_db 1 9) = error_s
   \<and> snd (add_movie_actor sample_db 1 9) = sample_db"
proof -
  have a: "fst (update_movie_director sample_db 9 3) = error_m"
    "fst (update_movie_director sample_db 1 9) = error_s"
    by (simp_all add: update_movie_director_def sample_lookups)
  have b: "fst (add_movie_actor sample_db 9 3) = error_m"
    "fst (add_movie_actor sample_db 1 9) = error_s"
    by (simp_all add: add_movie_actor_def sample_lookups)
  have 1: "snd (update_movie_director sample_db 9 3) = sample_db"
    using not_found_leaves_state [of sample_db 9 3] a(1) by blast
  have 2: "snd (update_movie_director sample_db 1 9) = sample_db"
    using not_found_leaves_state [of sample_db 1 9] a(2) by blast
  have 3: "snd (add_movie_actor sample_db 9 3) = sample_db"
    using not_found_leaves_state [of sample_db 9 3] b(1) by blast
  have 4: "snd (add_movie_actor sample_db 1 9) = sample_db"
    using not_found_leaves_state [of sample_db 1 9] b(2) by blast
  from a b 1 2 3 4 show ?thesis by (intro conjI)
qed

section \<open>Unique rows\<close>

lemma set_unique_list_subset: "set (unique_list f seen xs) \<subseteq> set xs"
  by (induction xs arbitrary: seen) auto

lemma set_unique_list:
  "inj_on f (set xs) \<Longrightarrow> set (unique_list f seen xs) = {x \<in> set xs. f x \<notin> set seen}"
proof (induction xs arbitrary: seen)
  case Nil
  show ?case by simp
next
  case (Cons x xs)
  from Cons.prems have inj: "inj_on f (set xs)" by (simp add: inj_on_def)
  from Cons.prems have same: "\<And>y. y \<in> set xs \<Longrightarrow> f y = f x \<Longrightarrow> y = x"
    by (simp add: inj_on_def)
  show ?case
  proof (cases "f x \<in> set seen")
    case True
    then show ?thesis using Cons.IH [OF inj, of seen] by auto
  next
    case False
    then show ?thesis using Cons.IH [OF inj, of "f x # seen"] same by auto
  qed
qed

lemma unique_list_keys:
  "distinct (map f (unique_list f seen xs)) \<and> f ` set (unique_list f seen xs) \<inter> set seen = {}"
proof (induction xs arbitrary: seen)
  case Nil
  show ?case by simp
next
  case (Cons x xs)
  show ?case
  proof (cases "f x \<in> set seen")
    case True
    then show ?thesis using Cons.IH [of seen] by simp
  next
    case False
    then show ?thesis using Cons.IH [of "f x # seen"] by auto
  qed
qed

lemma sorted_wrt_unique_list:
  "sorted_wrt P xs \<Longrightarrow> sorted_wrt P (unique_list f seen xs)"
proof (induction xs arbitrary: seen)
  case Nil
  show ?case by simp
next
  case (Cons x xs)
  then have "sorted_wrt P xs" and all: "\<forall>y \<in> set xs. P x y" by simp_all
  then have ih: "\<And>seen. sorted_wrt P (unique_list f seen xs)" using Cons.IH by blast
  from all have "\<forall>y \<in> set (unique_list f (f x # seen) xs). P x y"
    using set_unique_list_subset [of f "f x # seen" xs] by blast
  with ih show ?case by simp
qed

section \<open>Replacing the actors\<close>
















text \<open>
  The flush of an append deletes nothing and raises nothing: it is the inserts that
  \<^verbatim>\<open>add_movie_actor\<close> commits.
\<close>

lemma flush_actors_append:
  "flush_actors d m (loaded_actors d m @ [s])
     = Inr (d\<lparr>play := play d @ added_rows d m (loaded_actors d m @ [s])\<rparr>)"
proof -
  have "filter (\<lambda>i. i \<notin> star_id ` set (loaded_actors d m @ [s])) (map star_id (loaded_actors d m))
        = []"
    by (auto simp: filter_empty_conv)
  then show ?thesis by (simp add: flush_actors_def Let_def)
qed

section \<open>The director of a movie\<close>

text \<open>
  C3. \<^verbatim>\<open>get_director_by_id_movie\<close> has no not-found value to return for a movie
  that does not exist or has no director: in the sample state it raises
  \<^verbatim>\<open>AttributeError\<close> for the id 9 of no movie and for the movie 1, which has no
  director; for the movie 2 it returns the director.
\<close>

theorem get_director_by_id_movie_raises:
  "get_movie sample_db 9 = None
   \<and> get_director_by_id_movie sample_db 9 = Inl AttributeError
   \<and> get_movie sample_db 1 = Some movie1 \<and> id_director movie1 = None
   \<and> get_director_by_id_movie sample_db 1 = Inl AttributeError
   \<and> get_director_by_id_movie sample_db 2 = Inr (Some star3)"
proof -
  have "get_director_by_id_movie sample_db 9 = Inl AttributeError"
    "get_director_by_id_movie sample_db 1 = Inl AttributeError"
    "get_director_by_id_movie sample_db 2 = Inr (Some star3)"
    by (simp_all add: get_director_by_id_movie_def director_of_def get_star_def sample_defs)
  moreover have "id_director movie1 = None" by (simp add: movie1_def)
  ultimately show ?thesis by (simp add: sample_lookups)
qed

section \<open>Search by title\<close>

lemma sql_like_any: "sql_like eq ''%'' s"
  by (induction s) simp_all

lemma sql_like_any_any: "sql_like eq ''%%'' s"
  by (induction s) (simp_all add: sql_like_any)

text \<open>
  C10. For every state and collation, \<^verbatim>\<open>get_movies_by_title\<close> with the empty text
  returns every movie of the table, each as often as the table holds it, descending by
  year: the empty text is not rejected, and the result is empty only if the table is.
\<close>

theorem get_movies_by_title_empty_text:
  "mset (get_movies_by_title eq d '''') = mset (movies d)
   \<and> sorted_wrt (\<lambda>a b. b \<le> a) (map year (get_movies_by_title eq d ''''))"
  by (simp add: get_movies_by_title_def sql_like_any_any mset_order_by_year_desc
      sorted_order_by_year_desc)

section \<open>Statistics by year\<close>

lemma non_null_the: "non_null xs = map the (filter (\<lambda>x. x \<noteq> None) xs)"
  by (induction xs rule: non_null.induct) simp_all

lemma sql_min_Min:
  "sql_min xs = (if non_null xs = [] then None else Some (Min (set (non_null xs))))"
  by (induction xs rule: sql_min.induct) (auto simp: min_def Min_insert2 split: option.splits)

lemma sql_max_Max:
  "sql_max xs = (if non_null xs = [] then None else Some (Max (set (non_null xs))))"
  by (induction xs rule: sql_max.induct) (auto split: option.splits)

lemma sql_avg_quotient:
  "sql_avg quantize xs =
     (if non_null xs = [] then None
      else Some (quantize (of_int (sum_list (non_null xs))
                           / of_int (int (length (non_null xs))))))"
  by (simp add: sql_avg_def split: list.splits)

lemma stat_years:
  "map stat_year (get_count_movies_by_year quantize d) = sort (remdups (map year (movies d)))"
  by (simp add: get_count_movies_by_year_def Let_def comp_def)

text \<open>
  C6, with the average as the store returns it. For every state and every rounding of
  the store, \<^verbatim>\<open>get_count_movies_by_year\<close> returns one record for each year that a
  movie has, ascending by year; the count of a record is the number of movies of its
  year, its minimum and maximum are those of the durations of the movies of its year that
  have one (null when none has), and its average is the quotient of the sum of these
  durations by their number, rounded by the store: the average itself wherever the
  rounding leaves it as it is. For the years 1999 with durations 90 and 110 and 2001 with
  duration 120 the result is the two records of the specification.
\<close>

theorem get_count_movies_by_year_groups:
  "sorted (map stat_year (get_count_movies_by_year quantize d))
   \<and> distinct (map stat_year (get_count_movies_by_year quantize d))
   \<and> set (map stat_year (get_count_movies_by_year quantize d)) = year ` set (movies d)
   \<and> (\<forall>r \<in> set (get_count_movies_by_year quantize d).
         movie_count r = int (length (filter (\<lambda>m. year m = stat_year r) (movies d)))
         \<and> (let ds = map the (filter (\<lambda>x. x \<noteq> None)
                         (map duration (filter (\<lambda>m. year m = stat_year r) (movies d)))) in
              min_duration r = (if ds = [] then None else Some (Min (set ds)))
              \<and> max_duration r = (if ds = [] then None else Some (Max (set ds)))
              \<and> avg_duration r = (if ds = [] then None
                   else Some (quantize (of_int (sum_list ds) / of_int (int (length ds)))))))"
proof (intro conjI ballI)
  show "sorted (map stat_year (get_count_movies_by_year quantize d))"
    by (simp add: stat_years)
  show "distinct (map stat_year (get_count_movies_by_year quantize d))"
    by (simp add: stat_years)
  show "set (map stat_year (get_count_movies_by_year quantize d)) = year ` set (movies d)"
    by (simp add: stat_years)
next
  fix r
  assume "r \<in> set (get_count_movies_by_year quantize d)"
  then obtain y where r: "r = \<lparr>stat_year = y,
        movie_count = int (length (map duration (filter (\<lambda>m. year m = y) (movies d)))),
        min_duration = sql_min (map duration (filter (\<lambda>m. year m = y) (movies d))),
        max_duration = sql_max (map duration (filter (\<lambda>m. year m = y) (movies d))),
        avg_duration = sql_avg quantize (map duration (filter (\<lambda>m. year m = y) (movies d)))\<rparr>"
    by (auto simp: get_count_movies_by_year_def Let_def)
  show "movie_count r = int (length (filter (\<lambda>m. year m = stat_year r) (movies d)))"
    by (simp add: r)
  show "let ds = map the (filter (\<lambda>x. x \<noteq> None)
                         (map duration (filter (\<lambda>m. year m = stat_year r) (movies d)))) in
              min_duration r = (if ds = [] then None else Some (Min (set ds)))
              \<and> max_duration r = (if ds = [] then None else Some (Max (set ds)))
              \<and> avg_duration r = (if ds = [] then None
                   else Some (quantize (of_int (sum_list ds) / of_int (int (length ds)))))"
    unfolding Let_def r non_null_the [symmetric]
    by (simp only: movie_stat.simps sql_min_Min sql_max_Max sql_avg_quotient)
qed

lemma decimal4_of_int: "decimal4 (of_int k) = of_int k"
proof -
  have "\<lfloor>(of_int k :: rat) * 10000 + 1 / 2\<rfloor> = k * 10000"
    by (rule floor_unique) simp_all
  moreover have "\<lfloor>- (of_int k :: rat) * 10000 + 1 / 2\<rfloor> = - k * 10000"
    by (rule floor_unique) simp_all
  ultimately show ?thesis by (simp add: decimal4_def)
qed

lemma decimal4_numeral: "decimal4 (numeral n) = numeral n"
  using decimal4_of_int [of "numeral n"] by simp

lemma decimal4_third: "decimal4 (301 / 3) = 1003333 / 10000"
proof -
  have "\<lfloor>(301 / 3 :: rat) * 10000 + 1 / 2\<rfloor> = 1003333"
    by (rule floor_unique) simp_all
  then show ?thesis by (simp add: decimal4_def)
qed

lemma sample_stats: "get_count_movies_by_year decimal4 sample_db = [stat1999, stat2001]"
  by (simp add: get_count_movies_by_year_def sql_avg_def sample_defs stat1999_def stat2001_def
      decimal4_numeral)

theorem get_count_movies_by_year_groups_witness:
  "get_count_movies_by_year decimal4 sample_db = [stat1999, stat2001]
   \<and> stat1999 \<in> set (get_count_movies_by_year decimal4 sample_db)
   \<and> (movie_count stat1999
         = int (length (filter (\<lambda>m. year m = stat_year stat1999) (movies sample_db)))
       \<and> (let ds = map the (filter (\<lambda>x. x \<noteq> None) (map duration
                      (filter (\<lambda>m. year m = stat_year stat1999) (movies sample_db)))) in
              min_duration stat1999 = (if ds = [] then None else Some (Min (set ds)))
              \<and> max_duration stat1999 = (if ds = [] then None else Some (Max (set ds)))
              \<and> avg_duration stat1999 = (if ds = [] then None
                   else Some (decimal4 (of_int (sum_list ds) / of_int (int (length ds)))))))"
proof -
  have m: "stat1999 \<in> set (get_count_movies_by_year decimal4 sample_db)"
    by (simp add: sample_stats)
  note inst = get_count_movies_by_year_groups [of decimal4 sample_db, THEN conjunct2,
      THEN conjunct2, THEN conjunct2, THEN bspec, OF m]
  show ?thesis by (rule conjI [OF sample_stats conjI [OF m inst]])
qed

text \<open>
  C6 as stated, with the average itself in every record, fails where the store cannot
  hold the average: for three movies of one year with durations 90, 110 and 101 the
  average is 301 / 3, and the record has 100.3333.
\<close>

theorem get_count_movies_by_year_rounds_counterexample:
  "get_count_movies_by_year decimal4 thirds_db =
     [\<lparr>stat_year = 2000, movie_count = 3, min_duration = Some 90, max_duration = Some 110,
       avg_duration = Some (1003333 / 10000)\<rparr>]
   \<and> (1003333 / 10000 :: rat) \<noteq> of_int (90 + 110 + 101) / of_int 3"
  by (simp add: get_count_movies_by_year_def sql_avg_def thirds_db_def decimal4_third)

section \<open>Search by the end of an actor's name\<close>

subsection \<open>The pattern of a suffix\<close>

lemma sql_like_literal:
  "wildcard_free p \<Longrightarrow> sql_like eq p s = list_all2 eq p s"
proof (induction p arbitrary: s)
  case Nil
  then show ?case by (cases s) simp_all
next
  case (Cons a p)
  then have a: "a \<noteq> CHR ''%''" "a \<noteq> CHR ''_''" "a \<noteq> CHR 0x5C" and w: "wildcard_free p"
    by (simp_all add: wildcard_free_def)
  show ?case
  proof (cases s)
    case Nil
    with a show ?thesis by simp
  next
    case (Cons c cs)
    with a Cons.IH [OF w] show ?thesis by simp
  qed
qed

lemma sql_like_percent:
  "sql_like eq (CHR ''%'' # p) s = (\<exists>k \<le> length s. sql_like eq p (drop k s))"
proof (induction s)
  case Nil
  show ?case by simp
next
  case (Cons c cs)
  have "(\<exists>k \<le> length (c # cs). sql_like eq p (drop k (c # cs)))
        = (sql_like eq p (c # cs) \<or> (\<exists>k \<le> length cs. sql_like eq p (drop k cs)))"
  proof
    assume "\<exists>k \<le> length (c # cs). sql_like eq p (drop k (c # cs))"
    then obtain k where k: "k \<le> length (c # cs)" "sql_like eq p (drop k (c # cs))" by blast
    show "sql_like eq p (c # cs) \<or> (\<exists>k \<le> length cs. sql_like eq p (drop k cs))"
    proof (cases k)
      case 0
      with k show ?thesis by simp
    next
      case (Suc j)
      with k have "j \<le> length cs" "sql_like eq p (drop j cs)" by simp_all
      then show ?thesis by blast
    qed
  next
    assume "sql_like eq p (c # cs) \<or> (\<exists>k \<le> length cs. sql_like eq p (drop k cs))"
    then show "\<exists>k \<le> length (c # cs). sql_like eq p (drop k (c # cs))"
    proof
      assume "sql_like eq p (c # cs)"
      then have "0 \<le> length (c # cs) \<and> sql_like eq p (drop 0 (c # cs))" by simp
      then show ?thesis by blast
    next
      assume "\<exists>k \<le> length cs. sql_like eq p (drop k cs)"
      then obtain k where "k \<le> length cs" "sql_like eq p (drop k cs)" by blast
      then have "Suc k \<le> length (c # cs) \<and> sql_like eq p (drop (Suc k) (c # cs))" by simp
      then show ?thesis by blast
    qed
  qed
  with Cons show ?case by simp
qed

lemma ends_with_drop:
  "ends_with eq t s = (\<exists>k \<le> length s. list_all2 eq t (drop k s))"
proof
  assume "ends_with eq t s"
  then have "length s - length t \<le> length s \<and> list_all2 eq t (drop (length s - length t) s)"
    by (simp add: ends_with_def)
  then show "\<exists>k \<le> length s. list_all2 eq t (drop k s)" by blast
next
  assume "\<exists>k \<le> length s. list_all2 eq t (drop k s)"
  then obtain k where k: "k \<le> length s" "list_all2 eq t (drop k s)" by blast
  from k(2) have "length t = length s - k" by (simp add: list_all2_lengthD)
  with k show "ends_with eq t s" by (simp add: ends_with_def)
qed

lemma sql_like_suffix:
  "wildcard_free t \<Longrightarrow> sql_like eq (CHR ''%'' # t) s = ends_with eq t s"
  by (simp add: sql_like_percent sql_like_literal ends_with_drop)

subsection \<open>The joined rows\<close>

lemma set_order_by_year_desc: "set (order_by_year_desc ms) = set ms"
  by (simp add: order_by_year_desc_def)

lemma set_join_rows:
  "set (concat (map (\<lambda>m. map (\<lambda>s. m) (filter Q (actors_of d m))) (movies d)))
     = {m \<in> set (movies d). \<exists>s \<in> set (actors_of d m). Q s}"
  by auto

subsection \<open>The sample state\<close>

lemma sample_by_actor_wildcard:
  "get_movies_by_actor_endname (=) sample_db ''Smith%'' = [movie3, movie1, movie2]"
  by (simp add: get_movies_by_actor_endname_def order_by_year_desc_def sample_movies
      sample_actors sample_names sample_movie_fields)

lemma sample_by_actor_literal:
  "get_movies_by_actor_endname (=) sample_db ''Smith'' = [movie3, movie1]"
  by (simp add: get_movies_by_actor_endname_def order_by_year_desc_def sample_movies
      sample_actors sample_names sample_movie_fields)

subsection \<open>The result\<close>

text \<open>
  C8, for a text without \<^verbatim>\<open>%\<close>, \<^verbatim>\<open>_\<close> and backslash. For every state whose movies
  have distinct ids, every collation and every such text,
  \<^verbatim>\<open>get_movies_by_actor_endname\<close> returns exactly the movies with at least one actor
  whose name ends with the text, each once, descending by year. So \<^verbatim>\<open>Smith\<close> finds the
  movies of John Smith and not the movie of Ann Smithson.
\<close>

theorem get_movies_by_actor_endname_suffix:
  assumes "wildcard_free endname" and "distinct (map movie_id (movies d))"
  shows "set (get_movies_by_actor_endname eq d endname)
           = {m \<in> set (movies d). \<exists>s \<in> set (actors_of d m). ends_with eq endname (name s)}
         \<and> distinct (get_movies_by_actor_endname eq d endname)
         \<and> sorted_wrt (\<lambda>a b. b \<le> a) (map year (get_movies_by_actor_endname eq d endname))"
proof -
  let ?Q = "\<lambda>s. sql_like eq (''%'' @ endname) (name s)"
  let ?rows = "order_by_year_desc
      (concat (map (\<lambda>m. map (\<lambda>s. m) (filter ?Q (actors_of d m))) (movies d)))"
  have res: "get_movies_by_actor_endname eq d endname = unique_list movie_id [] ?rows"
    by (simp add: get_movies_by_actor_endname_def)
  have rows: "set ?rows = {m \<in> set (movies d). \<exists>s \<in> set (actors_of d m). ?Q s}"
    unfolding set_order_by_year_desc by (rule set_join_rows)
  from assms(2) have "inj_on movie_id (set (movies d))" by (simp add: distinct_map)
  moreover from rows have "set ?rows \<subseteq> set (movies d)" by blast
  ultimately have "inj_on movie_id (set ?rows)"
    by (rule inj_on_subset)
  then have "set (unique_list movie_id [] ?rows) = {x \<in> set ?rows. movie_id x \<notin> set []}"
    by (rule set_unique_list)
  then have 1: "set (get_movies_by_actor_endname eq d endname)
      = {m \<in> set (movies d). \<exists>s \<in> set (actors_of d m). ends_with eq endname (name s)}"
    unfolding res rows by (simp add: sql_like_suffix [OF assms(1)])
  have "distinct (map movie_id (unique_list movie_id [] ?rows))"
    using unique_list_keys [of movie_id "[]" ?rows] by blast
  then have 2: "distinct (get_movies_by_actor_endname eq d endname)"
    unfolding res by (simp add: distinct_map)
  have "sorted_wrt (\<lambda>a b. year b \<le> year a) ?rows"
    using sorted_order_by_year_desc [of "concat (map (\<lambda>m. map (\<lambda>s. m) (filter ?Q (actors_of d m))) (movies d))"]
    by (simp add: sorted_wrt_map)
  then have "sorted_wrt (\<lambda>a b. year b \<le> year a) (unique_list movie_id [] ?rows)"
    by (rule sorted_wrt_unique_list)
  then have 3: "sorted_wrt (\<lambda>a b. b \<le> a) (map year (get_movies_by_actor_endname eq d endname))"
    unfolding res by (simp add: sorted_wrt_map)
  from 1 2 3 show ?thesis by (intro conjI)
qed

theorem get_movies_by_actor_endname_suffix_witness:
  "wildcard_free ''Smith'' \<and> distinct (map movie_id (movies sample_db))
   \<and> get_movies_by_actor_endname (=) sample_db ''Smith'' = [movie3, movie1]
   \<and> ends_with (=) ''Smith'' ''John Smith'' \<and> \<not> ends_with (=) ''Smith'' ''Ann Smithson''
   \<and> (set (get_movies_by_actor_endname (=) sample_db ''Smith'')
           = {m \<in> set (movies sample_db).
                \<exists>s \<in> set (actors_of sample_db m). ends_with (=) ''Smith'' (name s)}
        \<and> distinct (get_movies_by_actor_endname (=) sample_db ''Smith'')
        \<and> sorted_wrt (\<lambda>a b. b \<le> a)
             (map year (get_movies_by_actor_endname (=) sample_db ''Smith'')))"
proof -
  have w: "wildcard_free ''Smith''" by (simp add: wildcard_free_def)
  have k: "distinct (map movie_id (movies sample_db))"
    by (simp add: sample_movies sample_movie_fields)
  have e: "ends_with (=) ''Smith'' ''John Smith''" "\<not> ends_with (=) ''Smith'' ''Ann Smithson''"
    by (simp_all add: ends_with_def)
  note inst = get_movies_by_actor_endname_suffix [OF w k, of "(=)"]
  show ?thesis
    by (rule conjI [OF w conjI [OF k conjI [OF sample_by_actor_literal
          conjI [OF e(1) conjI [OF e(2) inst]]]]])
qed

text \<open>
  C8 as stated, for every text, fails: the text goes into the pattern as it is, so
  \<^verbatim>\<open>Smith%\<close> asks for \<^verbatim>\<open>%Smith%\<close> and finds the movie whose only actor is Ann
  Smithson, a name that does not end with \<^verbatim>\<open>Smith%\<close>.
\<close>

theorem get_movies_by_actor_endname_wildcard_counterexample:
  "get_movies_by_actor_endname (=) sample_db ''Smith%'' = [movie3, movie1, movie2]
   \<and> actors_of sample_db movie2 = [star2]
   \<and> name star2 = ''Ann Smithson''
   \<and> \<not> ends_with (=) ''Smith%'' ''Ann Smithson''"
  by (simp add: sample_by_actor_wildcard sample_actors sample_names ends_with_def)

end
